theory Spec2Isabelle
  imports Main "HOL-Library.Sublist"
begin

section \<open>Python values, errors and the string primitives used by \<^verbatim>\<open>granola_sync.py\<close>\<close>

text \<open>
  The script works on values decoded from JSON by \<^verbatim>\<open>json.loads\<close> and
  \<^verbatim>\<open>response.json()\<close>: \<^verbatim>\<open>None\<close>, booleans, integers, strings, lists and
  dictionaries with string keys. A dictionary is an association list in insertion
  order; a lookup takes the first entry of a key (decoded dictionaries have distinct
  keys). Floating-point numbers are left out. A \<^typ>\<open>char\<close> stands for one code point
  below 256, so a \<^typ>\<open>string\<close> is a Python \<^verbatim>\<open>str\<close> over that range.
\<close>

datatype json =
    JNull
  | JBool bool
  | JInt int
  | JStr string
  | JList "json list"
  | JDict "(string \<times> json) list"

text \<open>
  The exceptions that can leave the functions modelled here. The \<^verbatim>\<open>ValueError\<close>
  of the date parser and the \<^verbatim>\<open>OSError\<close> of \<^verbatim>\<open>mkdir\<close> and of the write are
  caught inside \<^verbatim>\<open>sync_document\<close> and appear as branches of the model. The
  \<^verbatim>\<open>ValueError\<close> of \<^verbatim>\<open>open\<close> on a file name with a NUL character and the
  \<^verbatim>\<open>OSError\<close> of \<^verbatim>\<open>target_dir.exists()\<close> and of \<^verbatim>\<open>filepath.exists()\<close> are not
  caught there.
\<close>

datatype py_error = AttributeError | TypeError | ValueError | OSError

definition bindE :: "py_error + 'a \<Rightarrow> ('a \<Rightarrow> py_error + 'b) \<Rightarrow> py_error + 'b" where
  "bindE m f = (case m of Inl e \<Rightarrow> Inl e | Inr x \<Rightarrow> f x)"

abbreviation dquote :: char where "dquote \<equiv> CHR 0x22"
abbreviation squote :: char where "squote \<equiv> CHR 0x27"
abbreviation backslash :: char where "backslash \<equiv> CHR 0x5C"
abbreviation backtick :: char where "backtick \<equiv> CHR 0x60"

text \<open>Truth value testing: \<^verbatim>\<open>if x\<close>, \<^verbatim>\<open>not x\<close>, \<^verbatim>\<open>x or y\<close>.\<close>

fun truthy :: "json \<Rightarrow> bool" where
  "truthy JNull = False"
| "truthy (JBool b) = b"
| "truthy (JInt i) = (i \<noteq> 0)"
| "truthy (JStr s) = (s \<noteq> [])"
| "truthy (JList xs) = (xs \<noteq> [])"
| "truthy (JDict kvs) = (kvs \<noteq> [])"

definition py_or :: "json \<Rightarrow> json \<Rightarrow> json" where
  "py_or x y = (if truthy x then x else y)"

text \<open>\<^verbatim>\<open>d.get(k, default)\<close> on a dictionary, and on any value: only a dictionary has
  the method, every other value raises \<^verbatim>\<open>AttributeError\<close>.\<close>

definition dict_get :: "(string \<times> json) list \<Rightarrow> string \<Rightarrow> json \<Rightarrow> json" where
  "dict_get d k dflt = (case map_of d k of Some v \<Rightarrow> v | None \<Rightarrow> dflt)"

definition py_get :: "json \<Rightarrow> string \<Rightarrow> json \<Rightarrow> py_error + json" where
  "py_get x k dflt = (case x of JDict d \<Rightarrow> Inr (dict_get d k dflt) | _ \<Rightarrow> Inl AttributeError)"

text \<open>\<^verbatim>\<open>for x in v\<close>: a list yields its items, a dictionary its keys, a string its
  characters; \<^verbatim>\<open>None\<close>, booleans and integers are not iterable.\<close>

definition py_iter :: "json \<Rightarrow> py_error + json list" where
  "py_iter v =
     (case v of
        JList xs \<Rightarrow> Inr xs
      | JDict kvs \<Rightarrow> Inr (map (\<lambda>kv. JStr (fst kv)) kvs)
      | JStr s \<Rightarrow> Inr (map (\<lambda>c. JStr [c]) s)
      | _ \<Rightarrow> Inl TypeError)"

subsection \<open>Formatting a value inside an f-string\<close>

definition digit_char :: "nat \<Rightarrow> char" where
  "digit_char n = ''0123456789abcdef'' ! n"

fun nat_str :: "nat \<Rightarrow> string" where
  "nat_str n = (if n < 10 then [digit_char n] else nat_str (n div 10) @ [digit_char (n mod 10)])"

declare nat_str.simps [simp del]

definition int_str :: "int \<Rightarrow> string" where
  "int_str i = (if i < 0 then CHR ''-'' # nat_str (nat (- i)) else nat_str (nat i))"

text \<open>\<^verbatim>\<open>repr\<close> of a string: single quotes unless the string holds a single quote and
  no double quote; the quote and the backslash are escaped, control and non-printable
  characters are written as escapes.\<close>

definition repr_char :: "char \<Rightarrow> char \<Rightarrow> string" where
  "repr_char q c =
     (let n = (of_char c :: nat) in
      if c = q \<or> c = backslash then [backslash, c]
      else if c = CHR 0x09 then [backslash, CHR ''t'']
      else if c = CHR 0x0A then [backslash, CHR ''n'']
      else if c = CHR 0x0D then [backslash, CHR ''r'']
      else if n < 32 \<or> n = 127 \<or> (128 \<le> n \<and> n \<le> 160) \<or> n = 173
        then [backslash, CHR ''x'', digit_char (n div 16), digit_char (n mod 16)]
      else [c])"

definition repr_str :: "string \<Rightarrow> string" where
  "repr_str s =
     (let q = (if squote \<in> set s \<and> dquote \<notin> set s then dquote else squote)
      in q # concat (map (repr_char q) s) @ [q])"

fun py_join :: "string \<Rightarrow> string list \<Rightarrow> string" where
  "py_join sep [] = []"
| "py_join sep [x] = x"
| "py_join sep (x # y # ys) = x @ sep @ py_join sep (y # ys)"

primrec py_repr :: "json \<Rightarrow> string" where
  "py_repr JNull = ''None''"
| "py_repr (JBool b) = (if b then ''True'' else ''False'')"
| "py_repr (JInt i) = int_str i"
| "py_repr (JStr s) = repr_str s"
| "py_repr (JList xs) = ''['' @ py_join '', '' (map py_repr xs) @ '']''"
| "py_repr (JDict kvs) =
     ''{'' @ py_join '', '' (map (\<lambda>kv. repr_str (fst kv) @ '': '' @ snd kv) (map (map_prod id py_repr) kvs)) @ ''}''"

text \<open>\<^verbatim>\<open>str(v)\<close>, which is what \<^verbatim>\<open>f"{v}"\<close> inserts: a string as it is, every
  other value as its \<^verbatim>\<open>repr\<close>.\<close>

definition py_str :: "json \<Rightarrow> string" where
  "py_str v = (case v of JStr s \<Rightarrow> s | _ \<Rightarrow> py_repr v)"

subsection \<open>String methods\<close>

text \<open>\<^verbatim>\<open>str.isspace\<close> on one character, for the code points below 256.\<close>

definition is_space :: "char \<Rightarrow> bool" where
  "is_space c =
     (c \<in> set [CHR 0x09, CHR 0x0A, CHR 0x0B, CHR 0x0C, CHR 0x0D, CHR 0x1C, CHR 0x1D,
               CHR 0x1E, CHR 0x1F, CHR 0x20, CHR 0x85, CHR 0xA0])"

text \<open>\<^verbatim>\<open>s.replace(old, new)\<close>: the occurrences of \<^verbatim>\<open>old\<close> are found left to right
  and do not overlap; an empty \<^verbatim>\<open>old\<close> matches before every character and at the
  end.\<close>

fun str_replace :: "string \<Rightarrow> string \<Rightarrow> string \<Rightarrow> string" where
  "str_replace old new [] = (if old = [] then new else [])"
| "str_replace old new (c # cs) =
     (if old = [] then new @ c # str_replace old new cs
      else if prefix old (c # cs) then new @ str_replace old new (drop (length old) (c # cs))
      else c # str_replace old new cs)"

text \<open>\<^verbatim>\<open>s.split()\<close>: the maximal runs of characters that are not whitespace, in
  order. The scan keeps the word read so far in \<open>w\<close>.\<close>

fun split_acc :: "string \<Rightarrow> string \<Rightarrow> string list" where
  "split_acc w [] = (if w = [] then [] else [w])"
| "split_acc w (c # cs) =
     (if is_space c then (if w = [] then split_acc [] cs else w # split_acc [] cs)
      else split_acc (w @ [c]) cs)"

definition py_split :: "string \<Rightarrow> string list" where
  "py_split s = split_acc [] s"

text \<open>\<^verbatim>\<open>s.lstrip()\<close>, \<^verbatim>\<open>s.rstrip()\<close> and \<^verbatim>\<open>s.strip()\<close>.\<close>

definition py_lstrip :: "string \<Rightarrow> string" where
  "py_lstrip s = dropWhile is_space s"

definition py_rstrip :: "string \<Rightarrow> string" where
  "py_rstrip s = rev (dropWhile is_space (rev s))"

definition py_strip :: "string \<Rightarrow> string" where
  "py_strip s = py_rstrip (py_lstrip s)"

section \<open>FilenameSanitizer: \<^verbatim>\<open>sanitize_filename\<close>\<close>

text \<open>The loop over \<^verbatim>\<open>invalid_chars\<close>: one \<^verbatim>\<open>replace\<close> per character, in the order
  of the string.\<close>

definition invalid_chars :: string where
  "invalid_chars = [dquote, backslash, CHR ''|'', CHR ''?'', CHR ''*'']"

fun replace_each :: "string \<Rightarrow> string \<Rightarrow> string" where
  "replace_each [] nm = nm"
| "replace_each (ch # chs) nm = replace_each chs (str_replace [ch] ''-'' nm)"

definition sanitize_filename :: "string \<Rightarrow> string" where
  "sanitize_filename nm =
     (let n1 = str_replace ''<>'' ''and'' nm;
          n2 = str_replace '':'' [] n1;
          n3 = str_replace ''/'' ''-'' n2;
          n4 = replace_each invalid_chars n3;
          clean_name = py_join '' '' (py_split n4)
      in clean_name)"

section \<open>SpeakerResolver: \<^verbatim>\<open>resolve_speaker_name\<close>\<close>

definition resolve_speaker_name :: "json \<Rightarrow> json \<Rightarrow> json list \<Rightarrow> py_error + json" where
  "resolve_speaker_name segment creator_name attendee_names =
     bindE (py_get segment ''source'' JNull) (\<lambda>source.
       if source = JStr ''microphone'' then Inr (py_or creator_name (JStr ''Me''))
       else if source = JStr ''system'' then
         (if length attendee_names = 1 then Inr (attendee_names ! 0)
          else if length attendee_names > 1 then Inr (JStr ''Remote Speaker'')
          else Inr (JStr ''Speaker''))
       else Inr (JStr ''Unknown''))"

section \<open>TranscriptFormatter: \<^verbatim>\<open>format_transcript\<close>\<close>

text \<open>The loop over the segments; \<open>segments\<close> is the list of lines appended so far.\<close>

fun transcript_loop :: "json list \<Rightarrow> json \<Rightarrow> json list \<Rightarrow> string list \<Rightarrow> py_error + string list" where
  "transcript_loop [] creator_name attendee_names segments = Inr segments"
| "transcript_loop (segment # rest) creator_name attendee_names segments =
     bindE (py_get segment ''text'' JNull) (\<lambda>txt.
       if truthy txt then
         bindE (resolve_speaker_name segment creator_name attendee_names) (\<lambda>nm.
           transcript_loop rest creator_name attendee_names
             (segments @ [''**'' @ py_str nm @ ''**: '' @ py_str txt]))
       else transcript_loop rest creator_name attendee_names segments)"

definition transcript_heading :: string where
  "transcript_heading = ''\<newline>\<newline>---\<newline>## Full Transcript\<newline>\<newline>''"

definition format_transcript :: "json \<Rightarrow> json \<Rightarrow> json list \<Rightarrow> py_error + string" where
  "format_transcript transcript_data creator_name attendee_names =
     (if \<not> truthy transcript_data then Inr []
      else
        bindE (py_iter transcript_data) (\<lambda>segs.
        bindE (transcript_loop segs creator_name attendee_names []) (\<lambda>segments.
          if segments = [] then Inr []
          else Inr (transcript_heading @ py_join ''\<newline>\<newline>'' segments))))"

section \<open>PeopleExtractor: \<^verbatim>\<open>extract_people\<close>\<close>

record person =
  name :: json
  email :: json

record people =
  creator :: person
  attendees :: "person list"

text \<open>The body of the loop for an attendee that is a dictionary.\<close>

definition attendee_info :: "(string \<times> json) list \<Rightarrow> py_error + person" where
  "attendee_info att =
     (let nm = dict_get att ''email'' JNull;
          details = py_or (dict_get att ''details'' JNull) (JDict [])
      in bindE (py_get details ''person'' JNull) (\<lambda>p.
         bindE (py_get (py_or p (JDict [])) ''name'' JNull) (\<lambda>n.
           let name_obj = py_or n (JDict []);
               nm' = (case name_obj of
                        JDict no \<Rightarrow>
                          (let possible_name = dict_get no ''fullName'' JNull
                           in if truthy possible_name then possible_name else nm)
                      | JStr s \<Rightarrow> name_obj
                      | _ \<Rightarrow> nm)
           in Inr \<lparr>name = nm', email = dict_get att ''email'' JNull\<rparr>)))"

fun attendees_loop :: "json list \<Rightarrow> py_error + person list" where
  "attendees_loop [] = Inr []"
| "attendees_loop (att # rest) =
     (case att of
        JDict a \<Rightarrow>
          bindE (attendee_info a) (\<lambda>info.
          bindE (attendees_loop rest) (\<lambda>infos. Inr (info # infos)))
      | _ \<Rightarrow> attendees_loop rest)"

definition extract_people :: "json \<Rightarrow> py_error + people" where
  "extract_people doc =
     bindE (py_get doc ''people'' JNull) (\<lambda>pd.
       let people_data = py_or pd (JDict []) in
       bindE (py_get people_data ''creator'' JNull) (\<lambda>c.
         let creator' = py_or c (JDict []) in
         bindE (py_get creator' ''name'' JNull) (\<lambda>cn.
         bindE (py_get creator' ''email'' JNull) (\<lambda>ce.
           let creator_info = \<lparr>name = py_or cn (JStr ''Me''), email = ce\<rparr> in
           bindE (py_get people_data ''attendees'' JNull) (\<lambda>ra.
           bindE (py_iter (py_or ra (JList []))) (\<lambda>raw_attendees.
           bindE (attendees_loop raw_attendees) (\<lambda>attendees_info.
             Inr \<lparr>creator = creator_info, attendees = attendees_info\<rparr>)))))))"

section \<open>RichTextConverter: \<^verbatim>\<open>parse_prosemirror\<close>\<close>

text \<open>\<^verbatim>\<open>''.join(parse_prosemirror(child) for child in content)\<close>: the generator is
  run to its end first, so an exception of a child comes before the
  \<^verbatim>\<open>TypeError\<close> of \<^verbatim>\<open>join\<close> on an item that is not a string.\<close>

fun sequenceE :: "(py_error + 'a) list \<Rightarrow> py_error + 'a list" where
  "sequenceE [] = Inr []"
| "sequenceE (r # rs) = bindE r (\<lambda>x. bindE (sequenceE rs) (\<lambda>xs. Inr (x # xs)))"

fun join_empty :: "json list \<Rightarrow> py_error + string" where
  "join_empty [] = Inr []"
| "join_empty (v # vs) =
     (case v of JStr s \<Rightarrow> bindE (join_empty vs) (\<lambda>r. Inr (s @ r)) | _ \<Rightarrow> Inl TypeError)"

text \<open>\<^verbatim>\<open>'#' * level\<close>: a string times an integer (a boolean counts as 0 or 1, a
  negative count gives the empty string); any other operand raises.\<close>

definition str_times :: "string \<Rightarrow> json \<Rightarrow> py_error + string" where
  "str_times s n =
     (case n of
        JInt i \<Rightarrow> Inr (concat (replicate (nat i) s))
      | JBool b \<Rightarrow> Inr (if b then s else [])
      | _ \<Rightarrow> Inl TypeError)"

text \<open>The loop over the marks of a text node. \<open>txt\<close> is the variable
  \<^verbatim>\<open>text\<close>: the node's value at first, a string once a mark has wrapped it. A
  link mark returns from inside the loop with the value as decorated so far.\<close>

fun apply_marks :: "json list \<Rightarrow> json \<Rightarrow> py_error + json" where
  "apply_marks [] txt = Inr txt"
| "apply_marks (mark # marks) txt =
     bindE (py_get mark ''type'' JNull) (\<lambda>m_type.
       if m_type = JStr ''bold'' then apply_marks marks (JStr (''**'' @ py_str txt @ ''**''))
       else if m_type = JStr ''italic'' then apply_marks marks (JStr (''*'' @ py_str txt @ ''*''))
       else if m_type = JStr ''code'' then
         apply_marks marks (JStr ([backtick] @ py_str txt @ [backtick]))
       else if m_type = JStr ''link'' then
         bindE (py_get mark ''attrs'' (JDict [])) (\<lambda>attrs.
         bindE (py_get attrs ''href'' (JStr [])) (\<lambda>href.
           Inr (JStr (''['' @ py_str txt @ '']('' @ py_str href @ '')''))))
       else apply_marks marks txt)"

text \<open>The dispatch on the node type, after the children have been rendered.\<close>

definition render_node :: "(string \<times> json) list \<Rightarrow> string \<Rightarrow> py_error + json" where
  "render_node node child_text =
     (let node_type = dict_get node ''type'' (JStr []);
          txt = dict_get node ''text'' (JStr [])
      in
      if node_type = JStr ''doc'' then Inr (JStr child_text)
      else if node_type = JStr ''heading'' then
        bindE (py_get (dict_get node ''attrs'' (JDict [])) ''level'' (JInt 1)) (\<lambda>level.
        bindE (str_times ''#'' level) (\<lambda>hashes.
          Inr (JStr (hashes @ '' '' @ child_text @ ''\<newline>\<newline>''))))
      else if node_type = JStr ''paragraph'' then Inr (JStr (child_text @ ''\<newline>\<newline>''))
      else if node_type = JStr ''bulletList'' then Inr (JStr (child_text @ ''\<newline>''))
      else if node_type = JStr ''orderedList'' then Inr (JStr (child_text @ ''\<newline>''))
      else if node_type = JStr ''listItem'' then
        Inr (JStr (''- '' @ py_strip child_text @ ''\<newline>''))
      else if node_type = JStr ''text'' then
        bindE (py_iter (dict_get node ''marks'' (JList []))) (\<lambda>marks. apply_marks marks txt)
      else if node_type = JStr ''horizontalRule'' then Inr (JStr ''\<newline>---\<newline>\<newline>'')
      else Inr (JStr child_text))"

function parse_prosemirror :: "json \<Rightarrow> py_error + json" where
  "parse_prosemirror node =
     (case node of
        JDict nd \<Rightarrow>
          (case py_iter (dict_get nd ''content'' (JList [])) of
             Inl e \<Rightarrow> Inl e
           | Inr children \<Rightarrow>
               (case sequenceE (map parse_prosemirror children) of
                  Inl e \<Rightarrow> Inl e
                | Inr rendered \<Rightarrow>
                    (case join_empty rendered of
                       Inl e \<Rightarrow> Inl e
                     | Inr child_text \<Rightarrow> render_node nd child_text)))
      | _ \<Rightarrow> Inr (JStr []))"
  by pat_completeness auto
termination
proof (relation "measure size")
  show "wf (measure (size :: json \<Rightarrow> nat))" by simp
next
  fix node :: json and nd children and child :: json
  assume nd: "node = JDict nd"
    and it: "py_iter (dict_get nd ''content'' (JList [])) = Inr children"
    and ch: "child \<in> set children"
  have val: "size v < size (JDict kvs)" if "map_of kvs k = Some v" for kvs k and v :: json
  proof -
    from that have "(k, v) \<in> set kvs" by (rule map_of_SomeD)
    then have "size_prod (\<lambda>x. 0) size (k, v) \<le> size_list (size_prod (\<lambda>x. 0) size) kvs"
      by (simp add: size_list_estimation')
    then show ?thesis by simp
  qed
  have "size child < size (JDict nd)"
  proof (cases "map_of nd ''content''")
    case None
    with it ch show ?thesis by (simp add: dict_get_def py_iter_def)
  next
    case (Some c)
    then have c: "size c < size (JDict nd)" by (rule val)
    from Some it have "py_iter c = Inr children" by (simp add: dict_get_def)
    then have "size child \<le> size c"
    proof (cases c)
      case (JList xs)
      with \<open>py_iter c = Inr children\<close> ch have "child \<in> set xs" by (simp add: py_iter_def)
      then have "size child \<le> size_list size xs" by (simp add: size_list_estimation')
      with JList show ?thesis by simp
    qed (use ch in \<open>auto simp: py_iter_def\<close>)
    with c show ?thesis by simp
  qed
  with nd show "(child, node) \<in> measure size" by simp
qed

declare parse_prosemirror.simps [simp del]

section \<open>SyncOrchestrator: \<^verbatim>\<open>sync_document\<close> and the batch loop of \<^verbatim>\<open>main\<close>\<close>

text \<open>
  What \<^verbatim>\<open>sync_document\<close> reads and changes outside its arguments is made explicit.
  The \<open>world\<close> holds the output directory, as a map from the name of a year folder to
  the files in it (a map from file name to content), and the log of the document ids
  whose transcript was requested from the service. The path
  \<^verbatim>\<open>OUTPUT_DIR / year_folder / filename\<close> is the pair of the two names; names are
  compared as strings.

  The \<open>env\<close> holds what the script calls and does not define:
  \<^verbatim>\<open>datetime.fromisoformat\<close> (\<open>None\<close> for its \<^verbatim>\<open>ValueError\<close>); whether the C
  library pads the year of \<^verbatim>\<open>%Y\<close> to four digits (macOS does, glibc does not); the
  value \<^verbatim>\<open>fetch_transcript\<close> returns for a token and a document id (\<^verbatim>\<open>None\<close>,
  that is \<open>JNull\<close>, for a 404 answer or a request error); what the file system
  does with a year folder that does not exist yet:
  \<^item> \<open>NoDirFault\<close>: \<^verbatim>\<open>exists()\<close> answers \<^verbatim>\<open>False\<close> and \<^verbatim>\<open>mkdir\<close> creates the
    folder;
  \<^item> \<open>DirStatError\<close>: \<^verbatim>\<open>exists()\<close> raises \<^verbatim>\<open>OSError\<close> (an output directory that
    may not be searched);
  \<^item> \<open>MkdirError\<close>: \<^verbatim>\<open>exists()\<close> answers \<^verbatim>\<open>False\<close> and \<^verbatim>\<open>mkdir\<close> raises
    \<^verbatim>\<open>OSError\<close>;

  and what it does with the path of a file that does not exist yet:
  \<^item> \<open>NoFault\<close>: \<^verbatim>\<open>exists()\<close> answers \<^verbatim>\<open>False\<close> and the file can be written;
  \<^item> \<open>StatError\<close>: \<^verbatim>\<open>exists()\<close> raises \<^verbatim>\<open>OSError\<close> (a name longer than the file
    system allows, a directory that may not be searched; \<^verbatim>\<open>pathlib\<close> up to Python
    3.12 passes these on);
  \<^item> \<open>OpenError\<close>: \<^verbatim>\<open>open(filepath, 'w')\<close> raises \<^verbatim>\<open>OSError\<close> and no file is
    created;
  \<^item> \<open>WriteError n\<close>: \<^verbatim>\<open>open\<close> creates the file, and the write or the close
    raises \<^verbatim>\<open>OSError\<close> after \<open>n\<close> characters have reached the file.
\<close>

datatype dir_fault = NoDirFault | DirStatError | MkdirError

datatype fault = NoFault | StatError | OpenError | WriteError nat

record date =
  year :: nat
  month :: nat
  day :: nat

record world =
  tree :: "string \<Rightarrow> (string \<Rightarrow> string option) option"
  fetched :: "json list"

record env =
  fromisoformat :: "string \<Rightarrow> date option"
  pads_year :: bool
  transcript_reply :: "string \<Rightarrow> json \<Rightarrow> json"
  dir_fault :: "string \<Rightarrow> dir_fault"
  path_fault :: "string \<Rightarrow> string \<Rightarrow> fault"

text \<open>\<^verbatim>\<open>dt.strftime('%Y-%m-%d')\<close>. Month and day have two digits; the year has four
  digits where the C library pads it and is written as it is where the library does
  not, which differs for the years before 1000.\<close>

definition zero_pad :: "nat \<Rightarrow> string \<Rightarrow> string" where
  "zero_pad n s = replicate (n - length s) (CHR ''0'') @ s"

definition strftime_Ymd :: "env \<Rightarrow> date \<Rightarrow> string" where
  "strftime_Ymd env dt =
     zero_pad (if pads_year env then 4 else 1) (nat_str (year dt)) @ ''-'' @
     zero_pad 2 (nat_str (month dt)) @ ''-'' @ zero_pad 2 (nat_str (day dt))"

text \<open>Step 1, the date prefix and the year folder. A value that is not a string has
  no \<^verbatim>\<open>replace\<close>; that \<^verbatim>\<open>AttributeError\<close> is not caught by
  \<^verbatim>\<open>except ValueError\<close>.\<close>

definition derive_date :: "env \<Rightarrow> json \<Rightarrow> py_error + string \<times> string" where
  "derive_date env created_at_str =
     (if truthy created_at_str then
        (case created_at_str of
           JStr s \<Rightarrow>
             (case fromisoformat env (str_replace ''Z'' ''+00:00'' s) of
                Some dt \<Rightarrow> Inr (strftime_Ymd env dt, nat_str (year dt))
              | None \<Rightarrow> Inr (''0000-00-00'', ''Unknown_Year''))
         | _ \<Rightarrow> Inl AttributeError)
      else Inr (''0000-00-00'', ''Unknown_Year''))"

text \<open>\<^verbatim>\<open>target_dir.exists()\<close> and \<^verbatim>\<open>target_dir.mkdir(parents=True, exist_ok=True)\<close>:
  the \<^verbatim>\<open>OSError\<close> of \<^verbatim>\<open>exists()\<close> is raised, \<open>None\<close> is the caught
  \<^verbatim>\<open>OSError\<close> of \<^verbatim>\<open>mkdir\<close>.\<close>

definition ensure_dir :: "env \<Rightarrow> string \<Rightarrow> world \<Rightarrow> py_error + world option" where
  "ensure_dir env dir w =
     (if tree w dir \<noteq> None then Inr (Some w)
      else
        (case dir_fault env dir of
           DirStatError \<Rightarrow> Inl OSError
         | MkdirError \<Rightarrow> Inr None
         | NoDirFault \<Rightarrow> Inr (Some (w\<lparr>tree := (tree w)(dir \<mapsto> Map.empty)\<rparr>))))"

text \<open>Whether the output directory holds a file, and \<^verbatim>\<open>filepath.exists()\<close>. For a
  name with a NUL character \<^verbatim>\<open>exists()\<close> answers \<^verbatim>\<open>False\<close> (the
  \<^verbatim>\<open>ValueError\<close> of \<^verbatim>\<open>stat\<close> is caught by \<^verbatim>\<open>pathlib\<close>); for a file that is
  there it answers \<^verbatim>\<open>True\<close>; for one that is not there it answers \<^verbatim>\<open>False\<close> or
  raises the \<^verbatim>\<open>OSError\<close> of \<^verbatim>\<open>stat\<close>, which \<^verbatim>\<open>sync_document\<close> does not
  catch.\<close>

definition file_exists :: "world \<Rightarrow> string \<Rightarrow> string \<Rightarrow> bool" where
  "file_exists w dir fname = (case tree w dir of None \<Rightarrow> False | Some files \<Rightarrow> files fname \<noteq> None)"

definition path_exists :: "env \<Rightarrow> world \<Rightarrow> string \<Rightarrow> string \<Rightarrow> py_error + bool" where
  "path_exists env w dir fname =
     (if CHR 0x00 \<in> set fname then Inr False
      else if file_exists w dir fname then Inr True
      else if path_fault env dir fname = StatError then Inl OSError
      else Inr False)"

text \<open>Step 2, the notes. Rendering a node of type \<^verbatim>\<open>doc\<close> gives a string.\<close>

definition markdown_notes :: "(string \<times> json) list \<Rightarrow> py_error + string" where
  "markdown_notes d =
     (case dict_get d ''last_viewed_panel'' JNull of
        JDict panel \<Rightarrow>
          (case dict_get panel ''content'' JNull of
             JDict content \<Rightarrow>
               if dict_get content ''type'' JNull = JStr ''doc'' then
                 (case parse_prosemirror (JDict content) of
                    Inl e \<Rightarrow> Inl e
                  | Inr (JStr s) \<Rightarrow> Inr s
                  | Inr _ \<Rightarrow> Inl TypeError)
               else Inr []
           | _ \<Rightarrow> Inr [])
      | _ \<Rightarrow> Inr [])"

text \<open>\<^verbatim>\<open>fetch_transcript(token, doc_id)\<close>: the request is logged in the world.\<close>

definition fetch_transcript :: "env \<Rightarrow> string \<Rightarrow> json \<Rightarrow> world \<Rightarrow> json \<times> world" where
  "fetch_transcript env token doc_id w =
     (transcript_reply env token doc_id, w\<lparr>fetched := fetched w @ [doc_id]\<rparr>)"

text \<open>Step 4, the frontmatter. The name line and the optional email line are the
  same two f-strings for the creator and, in the loop, for every attendee.\<close>

definition participant_entry :: "person \<Rightarrow> string" where
  "participant_entry p =
     ''  - name: '' @ [dquote] @ py_str (name p) @ [dquote] @ ''\<newline>'' @
     (if truthy (email p) then ''    email: '' @ [dquote] @ py_str (email p) @ [dquote] @ ''\<newline>''
      else [])"

fun attendee_entries :: "person list \<Rightarrow> string \<Rightarrow> string" where
  "attendee_entries [] frontmatter = frontmatter"
| "attendee_entries (att # rest) frontmatter =
     attendee_entries rest (frontmatter @ participant_entry att)"

definition build_frontmatter :: "json \<Rightarrow> string \<Rightarrow> json \<Rightarrow> people \<Rightarrow> string" where
  "build_frontmatter doc_id title created_at_str ppl =
     (let safe_title = str_replace [dquote] [backslash, dquote] title;
          f1 = ''---\<newline>'';
          f2 = f1 @ ''granola_id: '' @ py_str doc_id @ ''\<newline>'';
          f3 = f2 @ ''title: '' @ [dquote] @ safe_title @ [dquote] @ ''\<newline>'';
          f4 = f3 @ ''created_at: '' @ py_str created_at_str @ ''\<newline>'';
          f5 = f4 @ ''participants:\<newline>'';
          f6 = f5 @ participant_entry (creator ppl);
          f7 = attendee_entries (attendees ppl) f6
      in f7 @ ''---\<newline>\<newline>'')"

text \<open>Step 5, the write. \<^verbatim>\<open>open\<close> raises \<^verbatim>\<open>ValueError\<close> for a name with a NUL
  character, before it touches the file system; that exception is not an
  \<^verbatim>\<open>IOError\<close> and leaves \<^verbatim>\<open>sync_document\<close>. An \<^verbatim>\<open>IOError\<close> (the same class as
  \<^verbatim>\<open>OSError\<close>) is caught and gives \<^verbatim>\<open>False\<close>: when \<^verbatim>\<open>open\<close> raises it (also
  for a missing directory) no file is created; when the write or the close raises
  it, the file has been created and holds the part of the content that was written.
  Every character of the model can be encoded as UTF-8, so the write raises no
  \<^verbatim>\<open>UnicodeEncodeError\<close>.\<close>

definition write_file :: "env \<Rightarrow> string \<Rightarrow> string \<Rightarrow> string \<Rightarrow> world \<Rightarrow> (py_error + bool) \<times> world" where
  "write_file env dir fname content w =
     (if CHR 0x00 \<in> set fname then (Inl ValueError, w)
      else
        (case tree w dir of
           None \<Rightarrow> (Inr False, w)
         | Some files \<Rightarrow>
             (case path_fault env dir fname of
                NoFault \<Rightarrow> (Inr True, w\<lparr>tree := (tree w)(dir \<mapsto> files(fname \<mapsto> content))\<rparr>)
              | WriteError n \<Rightarrow>
                  (Inr False, w\<lparr>tree := (tree w)(dir \<mapsto> files(fname \<mapsto> take n content))\<rparr>)
              | _ \<Rightarrow> (Inr False, w))))"

text \<open>Lines 251 to 317 of \<^verbatim>\<open>sync_document\<close>, for a document that is a dictionary
  with an id, once the date prefix and the year folder are known.\<close>

definition sync_with_date ::
  "env \<Rightarrow> (string \<times> json) list \<Rightarrow> string \<Rightarrow> string \<Rightarrow> string \<Rightarrow> world \<Rightarrow> (py_error + bool) \<times> world" where
  "sync_with_date env d token date_prefix year_folder w =
     (let doc_id = dict_get d ''id'' JNull;
          title = dict_get d ''title'' (JStr ''Untitled'');
          created_at_str = dict_get d ''created_at'' (JStr [])
      in
      case ensure_dir env year_folder w of
        Inl e \<Rightarrow> (Inl e, w)
      | Inr None \<Rightarrow> (Inr False, w)
      | Inr (Some w1) \<Rightarrow>
          (case title of
             JStr t \<Rightarrow>
               (let filename = date_prefix @ '' '' @ sanitize_filename t @ ''.md'' in
                case path_exists env w1 year_folder filename of
                  Inl e \<Rightarrow> (Inl e, w1)
                | Inr True \<Rightarrow> (Inr True, w1)
                | Inr False \<Rightarrow>
                  (case markdown_notes d of
                     Inl e \<Rightarrow> (Inl e, w1)
                   | Inr notes \<Rightarrow>
                       (case fetch_transcript env token doc_id w1 of
                          (transcript_data, w2) \<Rightarrow>
                            (case extract_people (JDict d) of
                               Inl e \<Rightarrow> (Inl e, w2)
                             | Inr ppl \<Rightarrow>
                                 (let creator_name = name (creator ppl);
                                      attendee_names = map name (attendees ppl)
                                  in
                                  case format_transcript transcript_data creator_name attendee_names of
                                    Inl e \<Rightarrow> (Inl e, w2)
                                  | Inr transcript_text \<Rightarrow>
                                      (let full_content =
                                             build_frontmatter doc_id t created_at_str ppl @ notes @
                                             transcript_text
                                       in write_file env year_folder filename full_content w2))))))
           | _ \<Rightarrow> (Inl AttributeError, w1)))"

definition sync_document :: "env \<Rightarrow> json \<Rightarrow> string \<Rightarrow> world \<Rightarrow> (py_error + bool) \<times> world" where
  "sync_document env doc token w =
     (case doc of
        JDict d \<Rightarrow>
          (let doc_id = dict_get d ''id'' JNull;
               created_at_str = dict_get d ''created_at'' (JStr [])
           in
           if \<not> truthy doc_id then (Inr False, w)
           else
             (case derive_date env created_at_str of
                Inl e \<Rightarrow> (Inl e, w)
              | Inr (date_prefix, year_folder) \<Rightarrow>
                  sync_with_date env d token date_prefix year_folder w))
      | _ \<Rightarrow> (Inl AttributeError, w))"

text \<open>The loop of \<^verbatim>\<open>main\<close>. \<open>success_count\<close> counts the documents for which
  \<^verbatim>\<open>sync_document\<close> returned \<^verbatim>\<open>True\<close>. An exception of one document is caught
  and the loop goes on with the next document; but the handler formats its message
  with \<^verbatim>\<open>doc.get('title')\<close>, so for a document that is not a dictionary the
  handler raises itself, and that \<^verbatim>\<open>AttributeError\<close> ends the loop and leaves
  \<^verbatim>\<open>main\<close>.\<close>

fun sync_all :: "env \<Rightarrow> string \<Rightarrow> json list \<Rightarrow> nat \<Rightarrow> world \<Rightarrow> (py_error + nat) \<times> world" where
  "sync_all env token [] success_count w = (Inr success_count, w)"
| "sync_all env token (doc # documents) success_count w =
     (case sync_document env doc token w of
        (Inr True, w') \<Rightarrow> sync_all env token documents (success_count + 1) w'
      | (Inr False, w') \<Rightarrow> sync_all env token documents success_count w'
      | (Inl e, w') \<Rightarrow>
          (case py_get doc ''title'' JNull of
             Inl e' \<Rightarrow> (Inl e', w')
           | Inr title \<Rightarrow> sync_all env token documents success_count w'))"

section \<open>The statements of the specification, as definitions of their own\<close>

text \<open>The five steps of the sanitizer in the words of the specification: replace the
  literal \<^verbatim>\<open><>\<close> with the word \<^verbatim>\<open>and\<close>, remove the colons, turn every slash into a
  dash, turn each of the five further characters into a dash, then collapse every
  run of whitespace into one space and trim both ends.\<close>

fun collapse_ws :: "string \<Rightarrow> string" where
  "collapse_ws [] = []"
| "collapse_ws [c] = [if is_space c then CHR '' '' else c]"
| "collapse_ws (c # d # cs) =
     (if is_space c then (if is_space d then collapse_ws (d # cs) else CHR '' '' # collapse_ws (d # cs))
      else c # collapse_ws (d # cs))"

definition spec_sanitize :: "string \<Rightarrow> string" where
  "spec_sanitize title =
     (let s1 = str_replace ''<>'' ''and'' title;
          s2 = filter (\<lambda>c. c \<noteq> CHR '':'') s1;
          s3 = map (\<lambda>c. if c = CHR ''/'' then CHR ''-'' else c) s2;
          s4 = map (\<lambda>c. if c \<in> {dquote, backslash, CHR ''|'', CHR ''?'', CHR ''*''} then CHR ''-'' else c) s3
      in py_strip (collapse_ws s4))"

text \<open>The wrapping of a value by the marks of a text node, as the specification
  words it: bold wraps in \<^verbatim>\<open>**\<close>, italic in \<^verbatim>\<open>*\<close>, code in backticks, applied in
  the order of the marks; a mark of another kind leaves the value as it is.\<close>

definition mark_type :: "json \<Rightarrow> json" where
  "mark_type m = (case m of JDict mk \<Rightarrow> dict_get mk ''type'' JNull | _ \<Rightarrow> JNull)"

definition wrap_mark :: "json \<Rightarrow> string \<Rightarrow> string" where
  "wrap_mark m v =
     (if mark_type m = JStr ''bold'' then ''**'' @ v @ ''**''
      else if mark_type m = JStr ''italic'' then ''*'' @ v @ ''*''
      else if mark_type m = JStr ''code'' then [backtick] @ v @ [backtick]
      else v)"

definition decorate :: "json list \<Rightarrow> string \<Rightarrow> string" where
  "decorate ms v = foldl (\<lambda>t m. wrap_mark m t) v ms"

text \<open>The policy of the SpeakerResolver for a segment record, and the line the
  TranscriptFormatter emits for a segment whose text is not empty.\<close>

definition resolved_name :: "(string \<times> json) list \<Rightarrow> json \<Rightarrow> json list \<Rightarrow> json" where
  "resolved_name seg creator_name attendee_names =
     (if dict_get seg ''source'' JNull = JStr ''microphone''
        then (if truthy creator_name then creator_name else JStr ''Me'')
      else if dict_get seg ''source'' JNull = JStr ''system''
        then (case attendee_names of
                [] \<Rightarrow> JStr ''Speaker''
              | [n] \<Rightarrow> n
              | _ # _ # _ \<Rightarrow> JStr ''Remote Speaker'')
      else JStr ''Unknown'')"

definition spoken :: "(string \<times> json) list \<Rightarrow> bool" where
  "spoken seg = truthy (dict_get seg ''text'' JNull)"

definition segment_line :: "json \<Rightarrow> json list \<Rightarrow> (string \<times> json) list \<Rightarrow> string" where
  "segment_line creator_name attendee_names seg =
     ''**'' @ py_str (resolved_name seg creator_name attendee_names) @ ''**: '' @
     py_str (dict_get seg ''text'' JNull)"

text \<open>An attendee's name object gives a name when it is a string, or a record with a
  \<^verbatim>\<open>fullName\<close> that is not empty.\<close>

definition resolvable_name :: "json \<Rightarrow> bool" where
  "resolvable_name name_obj =
     (case name_obj of
        JDict no \<Rightarrow> truthy (dict_get no ''fullName'' JNull)
      | JStr s \<Rightarrow> True
      | _ \<Rightarrow> False)"



text \<open>The target path \<^verbatim>\<open>sync_document\<close> computes for a document (year folder and file
  name), when it gets as far as computing one, and whether a file stands there.\<close>

definition target_path :: "env \<Rightarrow> json \<Rightarrow> (string \<times> string) option" where
  "target_path env doc =
     (case doc of
        JDict d \<Rightarrow>
          if truthy (dict_get d ''id'' JNull) then
            (case derive_date env (dict_get d ''created_at'' (JStr [])) of
               Inr (date_prefix, year_folder) \<Rightarrow>
                 (case dict_get d ''title'' (JStr ''Untitled'') of
                    JStr t \<Rightarrow> Some (year_folder, date_prefix @ '' '' @ sanitize_filename t @ ''.md'')
                  | _ \<Rightarrow> None)
             | Inl e \<Rightarrow> None)
          else None
      | _ \<Rightarrow> None)"

definition has_file :: "env \<Rightarrow> json \<Rightarrow> world \<Rightarrow> bool" where
  "has_file env doc w =
     (case target_path env doc of
        Some (dir, fname) \<Rightarrow> path_exists env w dir fname = Inr True
      | None \<Rightarrow> False)"

definition file_content :: "world \<Rightarrow> string \<Rightarrow> string \<Rightarrow> string option" where
  "file_content w dir fname = (case tree w dir of None \<Rightarrow> None | Some files \<Rightarrow> files fname)"

section \<open>An environment and a document for the examples\<close>

text \<open>A date parser for the examples. It accepts two of the formats
  \<^verbatim>\<open>datetime.fromisoformat\<close> accepts, \<^verbatim>\<open>YYYY-MM-DD\<close> and
  \<^verbatim>\<open>YYYY-MM-DDTHH:MM:SS\<close> with an optional offset \<^verbatim>\<open>+HH:MM\<close> or
  \<^verbatim>\<open>-HH:MM\<close>, and rejects everything else.\<close>

definition digit_val :: "char \<Rightarrow> nat option" where
  "digit_val c = map_of (zip ''0123456789'' [0, 1, 2, 3, 4, 5, 6, 7, 8, 9]) c"

fun number_acc :: "nat \<Rightarrow> string \<Rightarrow> nat option" where
  "number_acc n [] = Some n"
| "number_acc n (c # cs) =
     (case digit_val c of None \<Rightarrow> None | Some v \<Rightarrow> number_acc (10 * n + v) cs)"

definition digits_at :: "string \<Rightarrow> nat \<Rightarrow> nat \<Rightarrow> nat option" where
  "digits_at s i k = (if i + k \<le> length s then number_acc 0 (take k (drop i s)) else None)"

definition days_in_month :: "nat \<Rightarrow> nat \<Rightarrow> nat" where
  "days_in_month y m =
     (if m = 2 then (if y mod 4 = 0 \<and> (y mod 100 > 0 \<or> y mod 400 = 0) then 29 else 28)
      else if m \<in> {4, 6, 9, 11} then 30
      else 31)"

definition clock_ok :: "string \<Rightarrow> bool" where
  "clock_ok r =
     (case (digits_at r 0 2, digits_at r 3 2, digits_at r 6 2) of
        (Some h, Some mi, Some se) \<Rightarrow>
          length r = 8 \<and> h < 24 \<and> mi < 60 \<and> se < 60 \<and>
          take 1 (drop 2 r) = '':'' \<and> take 1 (drop 5 r) = '':''
      | _ \<Rightarrow> False)"

definition offset_ok :: "string \<Rightarrow> bool" where
  "offset_ok r =
     (if r = [] then True
      else
        (case (digits_at r 1 2, digits_at r 4 2) of
           (Some h, Some mi) \<Rightarrow>
             length r = 6 \<and> h < 24 \<and> mi < 60 \<and> take 1 r \<in> {''+'', ''-''} \<and>
             take 1 (drop 3 r) = '':''
         | _ \<Rightarrow> False))"

definition time_ok :: "string \<Rightarrow> bool" where
  "time_ok r =
     (if r = [] then True
      else take 1 r = ''T'' \<and> clock_ok (take 8 (drop 1 r)) \<and> offset_ok (drop 9 r))"

definition example_fromisoformat :: "string \<Rightarrow> date option" where
  "example_fromisoformat s =
     (case (digits_at s 0 4, digits_at s 5 2, digits_at s 8 2) of
        (Some y, Some m, Some d) \<Rightarrow>
          if 1 \<le> y \<and> 1 \<le> m \<and> m \<le> 12 \<and> 1 \<le> d \<and> d \<le> days_in_month y m \<and>
             take 1 (drop 4 s) = ''-'' \<and> take 1 (drop 7 s) = ''-'' \<and> time_ok (drop 10 s)
          then Some \<lparr>year = y, month = m, day = d\<rparr>
          else None
      | _ \<Rightarrow> None)"

text \<open>The document and the transcript of the end-to-end example of the
  specification, a service that answers with that transcript for the id \<^verbatim>\<open>d1\<close> and
  with \<^verbatim>\<open>None\<close> for every other id, a disk without faults, and the same with a disk
  on which no file can be opened for writing.\<close>

definition team_sync_doc :: json where
  "team_sync_doc =
     JDict [(''id'', JStr ''d1''),
            (''title'', JStr ''Team Sync''),
            (''created_at'', JStr ''2025-03-04T10:00:00Z''),
            (''last_viewed_panel'', JDict [(''content'', JDict [(''type'', JStr ''doc''), (''content'', JList [])])]),
            (''people'', JDict [(''creator'', JDict [(''name'', JStr ''Me'')]), (''attendees'', JList [])])]"

definition team_sync_transcript :: json where
  "team_sync_transcript = JList [JDict [(''source'', JStr ''microphone''), (''text'', JStr ''Hi'')]]"

definition example_env :: env where
  "example_env =
     \<lparr>fromisoformat = example_fromisoformat,
      pads_year = True,
      transcript_reply = (\<lambda>token doc_id. if doc_id = JStr ''d1'' then team_sync_transcript else JNull),
      dir_fault = (\<lambda>dir. NoDirFault),
      path_fault = (\<lambda>dir fname. NoFault)\<rparr>"


definition empty_world :: world where
  "empty_world = \<lparr>tree = (\<lambda>dir. None), fetched = []\<rparr>"

text \<open>The file the end-to-end example writes, the output directory after it, and a
  document whose creation time does not parse.\<close>

definition team_sync_content :: string where
  "team_sync_content =
     ''---\<newline>'' @
     ''granola_id: d1\<newline>'' @
     ''title: '' @ [dquote] @ ''Team Sync'' @ [dquote] @ ''\<newline>'' @
     ''created_at: 2025-03-04T10:00:00Z\<newline>'' @
     ''participants:\<newline>'' @
     ''  - name: '' @ [dquote] @ ''Me'' @ [dquote] @ ''\<newline>'' @
     ''---\<newline>\<newline>'' @
     ''\<newline>\<newline>---\<newline>## Full Transcript\<newline>\<newline>'' @
     ''**Me**: Hi''"



section \<open>Properties\<close>

subsection \<open>Auxiliary facts\<close>

lemma bindE_simps [simp]: "bindE (Inl e) f = Inl e" "bindE (Inr x) f = f x"
  by (simp_all add: bindE_def)

lemma is_space_blank [simp]: "is_space (CHR '' '')"
  by (simp add: is_space_def)

lemma str_replace_char_delete: "str_replace [c] [] s = filter (\<lambda>x. x \<noteq> c) s"
  by (induction s) auto

lemma str_replace_char_char: "str_replace [c] [d] s = map (\<lambda>x. if x = c then d else x) s"
  by (induction s) auto

lemma replace_each_map:
  "replace_each chs s = map (\<lambda>x. if x \<in> set chs then CHR ''-'' else x) s"
  by (induction chs arbitrary: s) (auto simp: str_replace_char_char)

lemma py_join_Cons: "py_join sep (w # ws) = (if ws = [] then w else w @ sep @ py_join sep ws)"
  by (cases ws) auto

lemma py_join_eq_Nil: "[] \<notin> set ws \<Longrightarrow> py_join sep ws = [] \<longleftrightarrow> ws = []"
  by (induction sep ws rule: py_join.induct) auto

subsection \<open>SpeakerResolver\<close>

text \<open>
  Claim C4. \<^verbatim>\<open>resolve_speaker_name\<close> returns a value for every segment record,
  creator name and list of attendee names, and the value is a function of the three:
  for the source \<^verbatim>\<open>microphone\<close> the creator's name, or \<^verbatim>\<open>Me\<close> when that name is
  empty; for the source \<^verbatim>\<open>system\<close> the only attendee name when there is exactly
  one, \<^verbatim>\<open>Remote Speaker\<close> when there are two or more, whatever they are, and
  \<^verbatim>\<open>Speaker\<close> when there is none; for every other source, also a missing one,
  \<^verbatim>\<open>Unknown\<close>.
\<close>

theorem resolve_speaker_name_cases:
  "resolve_speaker_name (JDict seg) creator_name attendee_names =
     Inr (if dict_get seg ''source'' JNull = JStr ''microphone''
            then (if truthy creator_name then creator_name else JStr ''Me'')
          else if dict_get seg ''source'' JNull = JStr ''system''
            then (case attendee_names of
                    [] \<Rightarrow> JStr ''Speaker''
                  | [n] \<Rightarrow> n
                  | _ # _ # _ \<Rightarrow> JStr ''Remote Speaker'')
          else JStr ''Unknown'')"
  by (simp add: resolve_speaker_name_def py_get_def py_or_def split: list.split)

theorem resolve_speaker_name_cases_witness:
  "resolve_speaker_name (JDict [(''source'', JStr ''system''), (''text'', JStr ''Hello'')])
     (JStr ''Ann'') [JStr ''Bob'', JStr ''Cy''] = Inr (JStr ''Remote Speaker'') \<and>
   resolve_speaker_name (JDict [(''source'', JStr ''microphone'')]) (JStr []) [JStr ''Bob'']
     = Inr (JStr ''Me'') \<and>
   resolve_speaker_name (JDict [(''text'', JStr ''Hello'')]) (JStr ''Ann'') [] = Inr (JStr ''Unknown'')"
  using resolve_speaker_name_cases [of "[(''source'', JStr ''system''), (''text'', JStr ''Hello'')]"
      "JStr ''Ann''" "[JStr ''Bob'', JStr ''Cy'']"]
    resolve_speaker_name_cases [of "[(''source'', JStr ''microphone'')]" "JStr []" "[JStr ''Bob'']"]
    resolve_speaker_name_cases [of "[(''text'', JStr ''Hello'')]" "JStr ''Ann''" "[]"]
  by (simp add: dict_get_def)

subsection \<open>FilenameSanitizer\<close>

text \<open>
  Claim C5. The claim says that the result of \<^verbatim>\<open>sanitize_filename\<close> never holds one
  of the characters \<^verbatim>\<open>< > : " / \ | ? *\<close>. The function replaces the pair
  \<^verbatim>\<open><>\<close> and lists \<^verbatim>\<open>"\|?*\<close> as the remaining invalid characters, so an angle
  bracket that stands alone is kept: the title \<^verbatim>\<open>a<b\<close> is returned as it is.
\<close>

theorem sanitize_filename_keeps_angle_bracket:
  "sanitize_filename ''a<b'' = ''a<b'' \<and> CHR ''<'' \<in> set (sanitize_filename ''a<b'')"
  by (simp add: sanitize_filename_def invalid_chars_def py_split_def is_space_def)

text \<open>The whitespace step: joining the words of \<^verbatim>\<open>split()\<close> with one space is
  collapsing every whitespace run and trimming.\<close>

lemma collapse_ws_nonspace: "\<not> is_space c \<Longrightarrow> collapse_ws (c # cs) = c # collapse_ws cs"
  by (cases cs) auto

lemma collapse_ws_space:
  "is_space c \<Longrightarrow> collapse_ws (c # cs) = CHR '' '' # py_lstrip (collapse_ws cs)"
proof (induction cs arbitrary: c)
  case Nil
  then show ?case by (simp add: py_lstrip_def)
next
  case (Cons d cs)
  show ?case
  proof (cases "is_space d")
    case True
    with Cons show ?thesis by (simp add: py_lstrip_def)
  next
    case False
    with Cons.prems show ?thesis by (simp add: py_lstrip_def collapse_ws_nonspace)
  qed
qed

lemma py_rstrip_Cons:
  "py_rstrip (x # t) = (if is_space x \<and> py_rstrip t = [] then [] else x # py_rstrip t)"
  by (auto simp: py_rstrip_def dropWhile_append)

lemma split_acc_no_empty: "[] \<notin> set (split_acc w s)"
  by (induction w s rule: split_acc.induct) auto

lemma split_join_collapse:
  "(w \<noteq> [] \<longrightarrow> py_join '' '' (split_acc w s) = w @ py_rstrip (collapse_ws s)) \<and>
   py_join '' '' (split_acc [] s) = py_rstrip (py_lstrip (collapse_ws s))"
proof (induction s arbitrary: w)
  case Nil
  then show ?case by (simp add: py_rstrip_def py_lstrip_def)
next
  case (Cons c cs)
  note word = Cons.IH [THEN conjunct1, rule_format] and start = Cons.IH [THEN conjunct2]
  show ?case
  proof (cases "is_space c")
    case True
    have nil: "split_acc [] cs = [] \<longleftrightarrow> py_rstrip (py_lstrip (collapse_ws cs)) = []"
      using start py_join_eq_Nil [OF split_acc_no_empty, of "'' ''" "[]" cs] by simp
    have twice: "py_lstrip (py_lstrip x) = py_lstrip x" for x
      by (simp add: py_lstrip_def)
    have blank: "py_lstrip (CHR '' '' # x) = py_lstrip x" for x
      by (simp add: py_lstrip_def)
    from True show ?thesis
      using nil start
      by (simp add: collapse_ws_space py_rstrip_Cons py_join_Cons twice blank del: collapse_ws.simps)
  next
    case False
    have keep: "py_lstrip (c # x) = c # x" for x
      using False by (simp add: py_lstrip_def)
    from False show ?thesis
      using word [of "w @ [c]"] word [of "[c]"]
      by (simp add: collapse_ws_nonspace py_rstrip_Cons keep del: collapse_ws.simps)
  qed
qed

lemma split_join_eq: "py_join '' '' (py_split s) = py_strip (collapse_ws s)"
  using split_join_collapse [of "[]" s] by (simp add: py_split_def py_strip_def)

text \<open>
  Claim C6. \<^verbatim>\<open>sanitize_filename\<close> is the five steps in their order: the literal
  \<^verbatim>\<open><>\<close> becomes \<^verbatim>\<open>and\<close>, colons are deleted, a slash becomes a dash, each of
  \<^verbatim>\<open>" \ | ? *\<close> becomes a dash, and every run of whitespace (newlines and tabs too)
  becomes one space, with the whitespace at both ends removed. In particular
  \<^verbatim>\<open>Q3:Plan/Review <> Ops\<close> gives \<^verbatim>\<open>Q3Plan-Review and Ops\<close>.
\<close>

theorem sanitize_filename_steps:
  "sanitize_filename nm = spec_sanitize nm \<and>
   sanitize_filename ''Q3:Plan/Review <> Ops'' = ''Q3Plan-Review and Ops''"
proof
  have "replace_each invalid_chars s =
        map (\<lambda>c. if c \<in> {dquote, backslash, CHR ''|'', CHR ''?'', CHR ''*''} then CHR ''-'' else c) s" for s
    by (simp add: replace_each_map invalid_chars_def)
  then show "sanitize_filename nm = spec_sanitize nm"
    by (simp add: sanitize_filename_def spec_sanitize_def split_join_eq
        str_replace_char_delete str_replace_char_char)
next
  show "sanitize_filename ''Q3:Plan/Review <> Ops'' = ''Q3Plan-Review and Ops''"
    by (simp add: sanitize_filename_def invalid_chars_def py_split_def is_space_def)
qed

theorem sanitize_filename_steps_witness:
  "sanitize_filename ''  a<>b: c/d?\<newline>\<newline> e  '' = ''aandb c-d- e'' \<and>
   spec_sanitize ''  a<>b: c/d?\<newline>\<newline> e  '' = ''aandb c-d- e''"
proof -
  have "spec_sanitize ''  a<>b: c/d?\<newline>\<newline> e  '' = ''aandb c-d- e''"
    by (simp add: spec_sanitize_def py_strip_def py_lstrip_def py_rstrip_def is_space_def)
  with sanitize_filename_steps [of "''  a<>b: c/d?\<newline>\<newline> e  ''"] show ?thesis by simp
qed

subsection \<open>TranscriptFormatter\<close>

lemma resolve_speaker_name_dict:
  "resolve_speaker_name (JDict seg) c a = Inr (resolved_name seg c a)"
  by (simp add: resolve_speaker_name_def resolved_name_def py_get_def py_or_def split: list.split)

lemma transcript_loop_lines:
  "transcript_loop (map JDict segs) c a acc = Inr (acc @ map (segment_line c a) (filter spoken segs))"
  by (induction segs arbitrary: acc)
     (simp_all add: py_get_def resolve_speaker_name_dict spoken_def segment_line_def)

text \<open>
  Claim C7. For an absent or empty list of segments, and for a list of segment
  records none of which has a text that is not empty, \<^verbatim>\<open>format_transcript\<close> returns
  the empty string, so no heading is emitted. Otherwise it returns the break
  \<^verbatim>\<open>---\<close> and the heading \<^verbatim>\<open>## Full Transcript\<close> followed by one line
  \<^verbatim>\<open>**<resolved name>**: <text>\<close> for every segment whose text is not empty, in the
  order of the input, with a blank line between two lines.
\<close>

theorem format_transcript_lines:
  "format_transcript JNull c a = Inr [] \<and>
   format_transcript (JList []) c a = Inr [] \<and>
   format_transcript (JList (map JDict segs)) c a =
     Inr (if filter spoken segs = [] then []
          else ''\<newline>\<newline>---\<newline>## Full Transcript\<newline>\<newline>'' @
               py_join ''\<newline>\<newline>'' (map (segment_line c a) (filter spoken segs)))"
proof (cases "segs = []")
  case True
  then show ?thesis by (simp add: format_transcript_def)
next
  case False
  then show ?thesis
    by (simp add: format_transcript_def py_iter_def transcript_loop_lines transcript_heading_def)
qed

theorem format_transcript_lines_witness:
  "format_transcript
     (JList [JDict [(''source'', JStr ''microphone''), (''text'', JStr ''Hi'')],
             JDict [(''source'', JStr ''system''), (''text'', JStr [])],
             JDict [(''source'', JStr ''system''), (''text'', JStr ''Yo'')]])
     (JStr ''Ann'') [JStr ''Bob''] =
     Inr ''\<newline>\<newline>---\<newline>## Full Transcript\<newline>\<newline>**Ann**: Hi\<newline>\<newline>**Bob**: Yo'' \<and>
   format_transcript (JList [JDict [(''source'', JStr ''system''), (''text'', JStr [])]])
     (JStr ''Ann'') [JStr ''Bob''] = Inr []"
  using format_transcript_lines [of "JStr ''Ann''" "[JStr ''Bob'']"
      "[[(''source'', JStr ''microphone''), (''text'', JStr ''Hi'')],
        [(''source'', JStr ''system''), (''text'', JStr [])],
        [(''source'', JStr ''system''), (''text'', JStr ''Yo'')]]"]
    format_transcript_lines [of "JStr ''Ann''" "[JStr ''Bob'']"
      "[[(''source'', JStr ''system''), (''text'', JStr [])]]"]
  by (simp add: spoken_def segment_line_def resolved_name_def dict_get_def py_str_def)

subsection \<open>RichTextConverter\<close>

lemma apply_marks_plain:
  "list_all (\<lambda>m. dict_get m ''type'' JNull \<noteq> JStr ''link'') pre \<Longrightarrow>
   apply_marks (map JDict pre @ rest) (JStr v) = apply_marks rest (JStr (decorate (map JDict pre) v))"
  by (induction pre arbitrary: v)
     (simp_all add: py_get_def decorate_def wrap_mark_def mark_type_def py_str_def)

text \<open>
  Claim C1, as stated, fails: a link mark ends the loop over the marks, but the marks
  before it have already wrapped the value, so a text node with the marks bold and
  link renders as \<^verbatim>\<open>[**t**](u)\<close> and not as \<^verbatim>\<open>[t](u)\<close>.
\<close>

theorem link_after_bold_counterexample:
  "parse_prosemirror
     (JDict [(''type'', JStr ''text''), (''text'', JStr ''t''),
             (''marks'', JList [JDict [(''type'', JStr ''bold'')],
                                JDict [(''type'', JStr ''link''),
                                       (''attrs'', JDict [(''href'', JStr ''u'')])]])])
     = Inr (JStr ''[**t**](u)'') \<and>
   parse_prosemirror
     (JDict [(''type'', JStr ''text''), (''text'', JStr ''t''),
             (''marks'', JList [JDict [(''type'', JStr ''bold'')],
                                JDict [(''type'', JStr ''link''),
                                       (''attrs'', JDict [(''href'', JStr ''u'')])]])])
     \<noteq> Inr (JStr ''[t](u)'')"
  by (simp add: parse_prosemirror.simps dict_get_def py_iter_def render_node_def py_get_def py_str_def)

text \<open>
  Claim C1, amended. For every text node with a string value, no children and marks
  that are records, if a link mark is present then the result is
  \<^verbatim>\<open>[d](href)\<close>, where \<open>d\<close> is the value wrapped, in order, by the bold, italic and
  code marks that stand before the first link mark, and \<open>href\<close> is the \<^verbatim>\<open>href\<close>
  attribute of that link mark (the empty string when the mark has no attributes or
  no \<^verbatim>\<open>href\<close>). The marks after the first link mark are ignored.
\<close>

theorem link_mark_returns_decorated_value:
  assumes "dict_get nd ''type'' (JStr []) = JStr ''text''"
    and "dict_get nd ''text'' (JStr []) = JStr v"
    and "dict_get nd ''content'' (JList []) = JList []"
    and "dict_get nd ''marks'' (JList []) = JList (map JDict pre @ JDict lk # post)"
    and "list_all (\<lambda>m. dict_get m ''type'' JNull \<noteq> JStr ''link'') pre"
    and "dict_get lk ''type'' JNull = JStr ''link''"
    and "dict_get lk ''attrs'' (JDict []) = JDict attrs"
  shows "parse_prosemirror (JDict nd) =
           Inr (JStr (''['' @ decorate (map JDict pre) v @ '']('' @
                      py_str (dict_get attrs ''href'' (JStr [])) @ '')''))"
proof -
  have "parse_prosemirror (JDict nd) = render_node nd []"
    using assms(3) by (simp add: parse_prosemirror.simps py_iter_def)
  also have "\<dots> = apply_marks (map JDict pre @ JDict lk # post) (JStr v)"
    using assms(1,2,4) by (simp add: render_node_def py_iter_def)
  also have "\<dots> = apply_marks (JDict lk # post) (JStr (decorate (map JDict pre) v))"
    using assms(5) by (rule apply_marks_plain)
  also have "\<dots> = Inr (JStr (''['' @ decorate (map JDict pre) v @ '']('' @
                      py_str (dict_get attrs ''href'' (JStr [])) @ '')''))"
    using assms(6,7) by (simp add: py_get_def py_str_def)
  finally show ?thesis .
qed

theorem link_mark_returns_decorated_value_witness:
  "parse_prosemirror
     (JDict [(''type'', JStr ''text''), (''text'', JStr ''t''),
             (''marks'', JList [JDict [(''type'', JStr ''bold'')],
                                JDict [(''type'', JStr ''italic'')],
                                JDict [(''type'', JStr ''link'')],
                                JDict [(''type'', JStr ''code'')]])])
     = Inr (JStr ''[***t***]()'')"
  using link_mark_returns_decorated_value
    [of "[(''type'', JStr ''text''), (''text'', JStr ''t''),
          (''marks'', JList [JDict [(''type'', JStr ''bold'')],
                             JDict [(''type'', JStr ''italic'')],
                             JDict [(''type'', JStr ''link'')],
                             JDict [(''type'', JStr ''code'')]])]"
        "''t''" "[[(''type'', JStr ''bold'')], [(''type'', JStr ''italic'')]]"
        "[(''type'', JStr ''link'')]" "[JDict [(''type'', JStr ''code'')]]" "[]"]
  by (simp add: dict_get_def decorate_def wrap_mark_def mark_type_def py_str_def)

subsection \<open>PeopleExtractor\<close>

lemma attendee_info_nameless:
  assumes "dict_get att ''email'' JNull = JNull"
    and "py_or (dict_get att ''details'' JNull) (JDict []) = JDict det"
    and "py_or (dict_get det ''person'' JNull) (JDict []) = JDict per"
    and "\<not> resolvable_name (py_or (dict_get per ''name'' JNull) (JDict []))"
  shows "attendee_info att = Inr \<lparr>name = JNull, email = JNull\<rparr>"
  using assms
  by (simp add: attendee_info_def py_get_def resolvable_name_def Let_def split: json.splits)

text \<open>
  Claim C9. When the people record holds exactly one attendee, a record with no
  email and no name that can be resolved (no \<^verbatim>\<open>fullName\<close> that is not empty, no
  name that is a string), \<^verbatim>\<open>extract_people\<close> gives that attendee the name
  \<^verbatim>\<open>None\<close>; \<^verbatim>\<open>resolve_speaker_name\<close> returns that \<^verbatim>\<open>None\<close> for a segment of the
  source \<^verbatim>\<open>system\<close>, not a label; and \<^verbatim>\<open>format_transcript\<close> writes the line of the
  segment as \<^verbatim>\<open>**None**: <text>\<close>.
\<close>

theorem nameless_attendee_is_None:
  assumes "dict_get d ''people'' JNull = JDict pd"
    and "py_or (dict_get pd ''creator'' JNull) (JDict []) = JDict cr"
    and "dict_get pd ''attendees'' JNull = JList [JDict att]"
    and "dict_get att ''email'' JNull = JNull"
    and "py_or (dict_get att ''details'' JNull) (JDict []) = JDict det"
    and "py_or (dict_get det ''person'' JNull) (JDict []) = JDict per"
    and "\<not> resolvable_name (py_or (dict_get per ''name'' JNull) (JDict []))"
    and "dict_get seg ''source'' JNull = JStr ''system''"
    and "dict_get seg ''text'' JNull = JStr t" and "t \<noteq> []"
  shows "\<exists>ppl. extract_people (JDict d) = Inr ppl \<and>
           map name (attendees ppl) = [JNull] \<and>
           resolve_speaker_name (JDict seg) (name (creator ppl)) (map name (attendees ppl)) = Inr JNull \<and>
           format_transcript (JList [JDict seg]) (name (creator ppl)) (map name (attendees ppl)) =
             Inr (''\<newline>\<newline>---\<newline>## Full Transcript\<newline>\<newline>'' @ ''**None**: '' @ t)"
proof -
  have pd: "py_or (JDict pd) (JDict []) = JDict pd"
    by (cases pd) (simp_all add: py_or_def)
  have "extract_people (JDict d) =
          Inr \<lparr>creator = \<lparr>name = py_or (dict_get cr ''name'' JNull) (JStr ''Me''),
                            email = dict_get cr ''email'' JNull\<rparr>,
               attendees = [\<lparr>name = JNull, email = JNull\<rparr>]\<rparr>"
    using assms(1,2,3) attendee_info_nameless [OF assms(4-7)]
    by (simp add: extract_people_def py_get_def pd py_iter_def Let_def py_or_def [of "JList _"])
  moreover have "resolve_speaker_name (JDict seg) c [JNull] = Inr JNull" for c
    using assms(8) by (simp add: resolve_speaker_name_def py_get_def)
  moreover have "format_transcript (JList [JDict seg]) c [JNull] =
      Inr (''\<newline>\<newline>---\<newline>## Full Transcript\<newline>\<newline>'' @ ''**None**: '' @ t)" for c
    using assms(8,9,10)
    by (simp add: format_transcript_def py_iter_def py_get_def resolve_speaker_name_def
        transcript_heading_def py_str_def)
  ultimately show ?thesis by simp
qed

theorem nameless_attendee_is_None_witness:
  "\<exists>ppl. extract_people
            (JDict [(''id'', JStr ''d1''),
                    (''people'', JDict [(''attendees'', JList [JDict [(''details'', JDict [(''person'', JDict [(''name'', JDict [])])])]])])])
            = Inr ppl \<and>
         map name (attendees ppl) = [JNull] \<and>
         resolve_speaker_name (JDict [(''source'', JStr ''system''), (''text'', JStr ''Hello'')])
           (name (creator ppl)) (map name (attendees ppl)) = Inr JNull \<and>
         format_transcript (JList [JDict [(''source'', JStr ''system''), (''text'', JStr ''Hello'')]])
           (name (creator ppl)) (map name (attendees ppl)) =
           Inr ''\<newline>\<newline>---\<newline>## Full Transcript\<newline>\<newline>**None**: Hello''"
  using nameless_attendee_is_None
    [of "[(''id'', JStr ''d1''),
          (''people'', JDict [(''attendees'', JList [JDict [(''details'', JDict [(''person'', JDict [(''name'', JDict [])])])]])])]"
        "[(''attendees'', JList [JDict [(''details'', JDict [(''person'', JDict [(''name'', JDict [])])])]])]"
        "[]"
        "[(''details'', JDict [(''person'', JDict [(''name'', JDict [])])])]"
        "[(''person'', JDict [(''name'', JDict [])])]"
        "[(''name'', JDict [])]"
        "[(''source'', JStr ''system''), (''text'', JStr ''Hello'')]"
        "''Hello''"]
  by (simp add: dict_get_def py_or_def resolvable_name_def)

subsection \<open>Frontmatter\<close>







subsection \<open>SyncOrchestrator\<close>

lemma file_exists_content: "file_exists w dir f \<longleftrightarrow> file_content w dir f \<noteq> None"
  by (simp add: file_exists_def file_content_def split: option.split)

lemma path_exists_True:
  "path_exists env w dir f = Inr True \<longleftrightarrow> file_exists w dir f \<and> CHR 0x00 \<notin> set f"
  by (simp add: path_exists_def)


lemma ensure_dir_keeps:
  "ensure_dir env y w = Inr (Some w1) \<Longrightarrow>
     file_content w1 dir f = file_content w dir f \<and> fetched w1 = fetched w \<and> tree w1 y \<noteq> None"
  by (auto simp: ensure_dir_def file_content_def split: if_splits dir_fault.splits)

text \<open>A write touches the one file it names, and only when the name has no NUL
  character; it returns \<^verbatim>\<open>True\<close> only after the whole content is in the file.\<close>

lemma write_file_content:
  "write_file env y fn c w = (r, w') \<Longrightarrow>
     (file_content w' dir f = file_content w dir f \<or>
      (dir = y \<and> f = fn \<and> CHR 0x00 \<notin> set fn \<and> file_content w' dir f \<noteq> None)) \<and>
     (r = Inr True \<longrightarrow> file_content w' y fn = Some c \<and> CHR 0x00 \<notin> set fn) \<and>
     fetched w' = fetched w"
  by (auto simp: write_file_def file_content_def split: if_splits option.splits fault.splits)

lemma fetch_keeps [simp]:
  "file_content (w\<lparr>fetched := x\<rparr>) dir f = file_content w dir f"
  "file_exists (w\<lparr>fetched := x\<rparr>) dir f = file_exists w dir f"
  "path_exists env (w\<lparr>fetched := x\<rparr>) dir f = path_exists env w dir f"
  by (simp_all add: file_content_def file_exists_def path_exists_def)






lemma sync_document_skip:
  assumes "has_file env doc w"
  shows "sync_document env doc token w = (Inr True, w)"
proof -
  from assms obtain d dp yf t where
    d: "doc = JDict d" "truthy (dict_get d ''id'' JNull)"
      "derive_date env (dict_get d ''created_at'' (JStr [])) = Inr (dp, yf)"
      "dict_get d ''title'' (JStr ''Untitled'') = JStr t"
      "path_exists env w yf (dp @ '' '' @ sanitize_filename t @ ''.md'') = Inr True"
    by (auto simp: has_file_def target_path_def split: json.splits if_splits sum.splits option.splits)
  from d(5) have "ensure_dir env yf w = Inr (Some w)"
    by (auto simp: ensure_dir_def path_exists_True file_exists_def split: option.splits)
  with d show ?thesis
    by (simp add: sync_document_def sync_with_date_def)
qed





lemma write_file_ok:
  "CHR 0x00 \<notin> set fn \<Longrightarrow> path_fault env y fn = NoFault \<Longrightarrow> tree w y \<noteq> None \<Longrightarrow>
     \<exists>w'. write_file env y fn c w = (Inr True, w')"
  by (auto simp: write_file_def)

lemma ensure_dir_ok: "dir_fault env y = NoDirFault \<Longrightarrow> \<exists>w1. ensure_dir env y w = Inr (Some w1)"
  by (simp add: ensure_dir_def)


text \<open>Two exceptions that leave \<^verbatim>\<open>sync_document\<close>. A title with a NUL character: the
  transcript is requested and \<^verbatim>\<open>open\<close> raises \<^verbatim>\<open>ValueError\<close>. A path on which
  \<^verbatim>\<open>exists()\<close> raises: nothing is requested and the \<^verbatim>\<open>OSError\<close> goes on to the
  caller.\<close>

lemma nul_title_raises:
  "sync_document example_env (JDict [(''id'', JStr ''d3''), (''title'', JStr [CHR ''a'', CHR 0x00, CHR ''b''])])
     ''tok'' empty_world =
   (Inl ValueError,
    empty_world\<lparr>tree := (tree empty_world)(''Unknown_Year'' \<mapsto> Map.empty), fetched := [JStr ''d3'']\<rparr>)"
  by (simp add: sync_document_def sync_with_date_def derive_date_def dict_get_def ensure_dir_def
      empty_world_def example_env_def path_exists_def sanitize_filename_def invalid_chars_def
      py_split_def is_space_def markdown_notes_def fetch_transcript_def extract_people_def
      py_get_def py_or_def py_iter_def format_transcript_def write_file_def Let_def)

lemma stat_error_raises:
  "sync_document (example_env\<lparr>path_fault := (\<lambda>dir fname. StatError)\<rparr>)
     (JDict [(''id'', JStr ''d3''), (''title'', JStr ''T'')]) ''tok'' empty_world =
   (Inl OSError, empty_world\<lparr>tree := (tree empty_world)(''Unknown_Year'' \<mapsto> Map.empty)\<rparr>)"
  by (simp add: sync_document_def sync_with_date_def derive_date_def dict_get_def ensure_dir_def
      empty_world_def example_env_def path_exists_def file_exists_def sanitize_filename_def
      invalid_chars_def py_split_def is_space_def Let_def)

text \<open>A write that fails after the file was created leaves the part written so
  far.\<close>

lemma partial_write_is_kept:
  "write_file (example_env\<lparr>path_fault := (\<lambda>dir fname. WriteError 3)\<rparr>) ''2025'' ''n.md'' ''abcdef''
     (empty_world\<lparr>tree := (tree empty_world)(''2025'' \<mapsto> Map.empty)\<rparr>) =
   (Inr False,
    empty_world\<lparr>tree := (tree empty_world)(''2025'' \<mapsto> Map.empty(''n.md'' \<mapsto> ''abc''))\<rparr>)"
  by (simp add: write_file_def empty_world_def)

text \<open>The loop of \<^verbatim>\<open>main\<close> ends at a document that is not a dictionary: the document
  after it is not processed.\<close>

lemma non_dict_document_ends_the_loop:
  "sync_all example_env ''tok'' [JNull, team_sync_doc] 0 empty_world = (Inl AttributeError, empty_world)"
  by (simp add: sync_document_def py_get_def)

lemma team_derive_date:
  assumes "fromisoformat env ''2025-03-04T10:00:00+00:00'' = Some \<lparr>year = 2025, month = 3, day = 4\<rparr>"
  shows "derive_date env (JStr ''2025-03-04T10:00:00Z'') = Inr (''2025-03-04'', ''2025'')"
  using assms
  by (simp add: derive_date_def strftime_Ymd_def zero_pad_def nat_str.simps digit_char_def)

lemma team_notes:
  "markdown_notes [(''id'', JStr ''d1''),
            (''title'', JStr ''Team Sync''),
            (''created_at'', JStr ''2025-03-04T10:00:00Z''),
            (''last_viewed_panel'', JDict [(''content'', JDict [(''type'', JStr ''doc''), (''content'', JList [])])]),
            (''people'', JDict [(''creator'', JDict [(''name'', JStr ''Me'')]), (''attendees'', JList [])])] = Inr []"
  by (simp add: markdown_notes_def dict_get_def parse_prosemirror.simps py_iter_def render_node_def)

lemma team_people:
  "extract_people team_sync_doc =
     Inr \<lparr>creator = \<lparr>name = JStr ''Me'', email = JNull\<rparr>, attendees = []\<rparr>"
  by (simp add: team_sync_doc_def extract_people_def py_get_def dict_get_def py_or_def py_iter_def)

lemma team_transcript:
  "format_transcript team_sync_transcript (JStr ''Me'') [] =
     Inr (''\<newline>\<newline>---\<newline>## Full Transcript\<newline>\<newline>'' @ ''**Me**: Hi'')"
  by (simp add: team_sync_transcript_def format_transcript_def py_iter_def py_get_def dict_get_def
      resolve_speaker_name_def py_or_def py_str_def transcript_heading_def)

lemma team_filename: "sanitize_filename ''Team Sync'' = ''Team Sync''"
  by (simp add: sanitize_filename_def invalid_chars_def py_split_def is_space_def)

lemma team_sync_document:
  assumes "fromisoformat env ''2025-03-04T10:00:00+00:00'' = Some \<lparr>year = 2025, month = 3, day = 4\<rparr>"
    and "transcript_reply env token (JStr ''d1'') = team_sync_transcript"
    and "ensure_dir env ''2025'' w = Inr (Some w1)"
    and "\<not> file_exists w ''2025'' ''2025-03-04 Team Sync.md''"
    and "path_fault env ''2025'' ''2025-03-04 Team Sync.md'' \<noteq> StatError"
  shows "sync_document env team_sync_doc token w =
           write_file env ''2025'' ''2025-03-04 Team Sync.md'' team_sync_content
             (w1\<lparr>fetched := fetched w @ [JStr ''d1'']\<rparr>)"
proof -
  have "\<not> file_exists w1 ''2025'' ''2025-03-04 Team Sync.md''"
    using assms(4) ensure_dir_keeps [OF assms(3)] by (simp add: file_exists_content)
  then have ex: "path_exists env w1 ''2025'' ''2025-03-04 Team Sync.md'' = Inr False"
    using assms(5) by (simp add: path_exists_def)
  have f: "fetched w1 = fetched w"
    using ensure_dir_keeps [OF assms(3)] by simp
  have fm: "build_frontmatter (JStr ''d1'') ''Team Sync'' (JStr ''2025-03-04T10:00:00Z'')
              \<lparr>creator = \<lparr>name = JStr ''Me'', email = JNull\<rparr>, attendees = []\<rparr> @ [] @
            (''\<newline>\<newline>---\<newline>## Full Transcript\<newline>\<newline>'' @ ''**Me**: Hi'') = team_sync_content"
    by (simp add: build_frontmatter_def participant_entry_def py_str_def team_sync_content_def)
  have "sync_document env team_sync_doc token w =
          sync_with_date env [(''id'', JStr ''d1''),
            (''title'', JStr ''Team Sync''),
            (''created_at'', JStr ''2025-03-04T10:00:00Z''),
            (''last_viewed_panel'', JDict [(''content'', JDict [(''type'', JStr ''doc''), (''content'', JList [])])]),
            (''people'', JDict [(''creator'', JDict [(''name'', JStr ''Me'')]), (''attendees'', JList [])])]
            token ''2025-03-04'' ''2025'' w"
    using team_derive_date [OF assms(1)]
    by (simp add: sync_document_def team_sync_doc_def dict_get_def)
  also have "\<dots> = write_file env ''2025'' ''2025-03-04 Team Sync.md'' team_sync_content
             (w1\<lparr>fetched := fetched w @ [JStr ''d1'']\<rparr>)"
    using assms(2,3) ex f team_notes team_people [unfolded team_sync_doc_def] team_transcript fm
    by (simp add: sync_with_date_def dict_get_def team_filename fetch_transcript_def Let_def)
  finally show ?thesis .
qed

lemma example_iso:
  "fromisoformat example_env ''2025-03-04T10:00:00+00:00'' = Some \<lparr>year = 2025, month = 3, day = 4\<rparr>"
  by (simp add: example_env_def example_fromisoformat_def digits_at_def
      digit_val_def days_in_month_def time_ok_def clock_ok_def offset_ok_def)



text \<open>A write that fails after three characters leaves a file with those three
  characters: the run does not count the document, and the next run finds the file,
  requests nothing and counts the document.\<close>

lemma partial_file_is_skipped:
  "sync_all (example_env\<lparr>path_fault := (\<lambda>dir fname. WriteError 3)\<rparr>) ''tok'' [team_sync_doc] 0 empty_world =
     (Inr 0, \<lparr>tree = (\<lambda>dir. None)(''2025'' \<mapsto> Map.empty(''2025-03-04 Team Sync.md'' \<mapsto> ''---'')),
              fetched = [JStr ''d1'']\<rparr>) \<and>
   sync_all (example_env\<lparr>path_fault := (\<lambda>dir fname. WriteError 3)\<rparr>) ''tok'' [team_sync_doc] 0
     \<lparr>tree = (\<lambda>dir. None)(''2025'' \<mapsto> Map.empty(''2025-03-04 Team Sync.md'' \<mapsto> ''---'')),
      fetched = [JStr ''d1'']\<rparr> =
     (Inr 1, \<lparr>tree = (\<lambda>dir. None)(''2025'' \<mapsto> Map.empty(''2025-03-04 Team Sync.md'' \<mapsto> ''---'')),
              fetched = [JStr ''d1'']\<rparr>)"
proof -
  let ?env = "example_env\<lparr>path_fault := (\<lambda>dir fname. WriteError 3)\<rparr>"
  let ?w = "\<lparr>tree = (\<lambda>dir. None)(''2025'' \<mapsto> Map.empty(''2025-03-04 Team Sync.md'' \<mapsto> ''---'')),
            fetched = [JStr ''d1'']\<rparr>"
  have iso: "fromisoformat ?env ''2025-03-04T10:00:00+00:00'' = Some \<lparr>year = 2025, month = 3, day = 4\<rparr>"
    using example_iso by simp
  have reply: "transcript_reply ?env ''tok'' (JStr ''d1'') = team_sync_transcript"
    by (simp add: example_env_def)
  have d: "ensure_dir ?env ''2025'' empty_world =
             Inr (Some (empty_world\<lparr>tree := (tree empty_world)(''2025'' \<mapsto> Map.empty)\<rparr>))"
    by (simp add: ensure_dir_def empty_world_def example_env_def)
  have n: "\<not> file_exists empty_world ''2025'' ''2025-03-04 Team Sync.md''"
    by (simp add: file_exists_def empty_world_def)
  have s: "path_fault ?env ''2025'' ''2025-03-04 Team Sync.md'' \<noteq> StatError"
    by simp
  have run1: "sync_document ?env team_sync_doc ''tok'' empty_world = (Inr False, ?w)"
    using team_sync_document [OF iso reply d n s]
    by (simp add: write_file_def empty_world_def team_sync_content_def)
  have "has_file ?env team_sync_doc ?w"
    using team_derive_date [OF iso]
    by (simp add: has_file_def target_path_def team_sync_doc_def dict_get_def team_filename
        path_exists_def file_exists_def)
  then have run2: "sync_document ?env team_sync_doc ''tok'' ?w = (Inr True, ?w)"
    by (rule sync_document_skip)
  from run1 run2 show ?thesis by simp
qed




text \<open>
  Claim C3. The document with id \<^verbatim>\<open>d1\<close>, title \<^verbatim>\<open>Team Sync\<close>, creation time
  \<^verbatim>\<open>2025-03-04T10:00:00Z\<close>, an empty panel, the creator \<^verbatim>\<open>Me\<close> and no
  attendees, with the transcript of one microphone segment \<^verbatim>\<open>Hi\<close>, is written to
  \<^verbatim>\<open>2025/2025-03-04 Team Sync.md\<close>. The file holds the frontmatter line
  \<^verbatim>\<open>granola_id: d1\<close> and a transcript section whose only speaker line is
  \<^verbatim>\<open>**Me**: Hi\<close>. The statement holds in every environment whose date parser reads
  the time as the fourth of March 2025, whose service answers with that transcript
  and whose disk accepts the directory and the file, from every world without that
  file.
\<close>

theorem team_sync_end_to_end:
  assumes "fromisoformat env ''2025-03-04T10:00:00+00:00'' = Some \<lparr>year = 2025, month = 3, day = 4\<rparr>"
    and "transcript_reply env token (JStr ''d1'') = team_sync_transcript"
    and "dir_fault env ''2025'' = NoDirFault"
    and "path_fault env ''2025'' ''2025-03-04 Team Sync.md'' = NoFault"
    and "\<not> file_exists w ''2025'' ''2025-03-04 Team Sync.md''"
  shows "\<exists>w'. sync_document env team_sync_doc token w = (Inr True, w') \<and>
           file_content w' ''2025'' ''2025-03-04 Team Sync.md'' =
             Some (''---\<newline>'' @
                   ''granola_id: d1\<newline>'' @
                   ''title: '' @ [dquote] @ ''Team Sync'' @ [dquote] @ ''\<newline>'' @
                   ''created_at: 2025-03-04T10:00:00Z\<newline>'' @
                   ''participants:\<newline>'' @
                   ''  - name: '' @ [dquote] @ ''Me'' @ [dquote] @ ''\<newline>'' @
                   ''---\<newline>\<newline>'' @
                   ''\<newline>\<newline>---\<newline>## Full Transcript\<newline>\<newline>'' @
                   ''**Me**: Hi'') \<and>
           fetched w' = fetched w @ [JStr ''d1''] \<and>
           format_transcript team_sync_transcript (JStr ''Me'') [] =
             Inr (''\<newline>\<newline>---\<newline>## Full Transcript\<newline>\<newline>'' @ ''**Me**: Hi'')"
proof -
  let ?fn = "''2025-03-04 Team Sync.md''"
  from ensure_dir_ok [OF assms(3)] obtain w1 where w1: "ensure_dir env ''2025'' w = Inr (Some w1)" by blast
  let ?w2 = "w1\<lparr>fetched := fetched w @ [JStr ''d1'']\<rparr>"
  have "path_fault env ''2025'' ?fn \<noteq> StatError"
    using assms(4) by simp
  with assms(1,2) w1 assms(5)
  have run: "sync_document env team_sync_doc token w = write_file env ''2025'' ?fn team_sync_content ?w2"
    by (rule team_sync_document)
  have "tree ?w2 ''2025'' \<noteq> None"
    using ensure_dir_keeps [OF w1] by simp
  moreover have "CHR 0x00 \<notin> set ?fn" by simp
  ultimately obtain w' where
    w': "write_file env ''2025'' ?fn team_sync_content ?w2 = (Inr True, w')"
    using write_file_ok [OF _ assms(4)] by blast
  from write_file_content [OF w', of "''2025''" ?fn]
  have "file_content w' ''2025'' ?fn = Some team_sync_content" "fetched w' = fetched w @ [JStr ''d1'']"
    by simp_all
  with run w' team_transcript show ?thesis
    by (simp add: team_sync_content_def)
qed

theorem team_sync_end_to_end_witness:
  "\<exists>w'. sync_document example_env team_sync_doc ''tok'' empty_world = (Inr True, w') \<and>
         file_content w' ''2025'' ''2025-03-04 Team Sync.md'' =
           Some (''---\<newline>'' @
                 ''granola_id: d1\<newline>'' @
                 ''title: '' @ [dquote] @ ''Team Sync'' @ [dquote] @ ''\<newline>'' @
                 ''created_at: 2025-03-04T10:00:00Z\<newline>'' @
                 ''participants:\<newline>'' @
                 ''  - name: '' @ [dquote] @ ''Me'' @ [dquote] @ ''\<newline>'' @
                 ''---\<newline>\<newline>'' @
                 ''\<newline>\<newline>---\<newline>## Full Transcript\<newline>\<newline>'' @
                 ''**Me**: Hi'') \<and>
         fetched w' = [JStr ''d1'']"
proof -
  have "transcript_reply example_env ''tok'' (JStr ''d1'') = team_sync_transcript"
    "dir_fault example_env ''2025'' = NoDirFault"
    "path_fault example_env ''2025'' ''2025-03-04 Team Sync.md'' = NoFault"
    "\<not> file_exists empty_world ''2025'' ''2025-03-04 Team Sync.md''"
    by (simp_all add: example_env_def file_exists_def empty_world_def)
  from team_sync_end_to_end [OF example_iso this] show ?thesis
    by (auto simp: empty_world_def)
qed



end
